theory Spec2Isabelle
  imports Complex_Main "HOL-Library.Word"
begin

section \<open>Data model of \<open>EmotionDetectionServer\<close>\<close>

text \<open>
  The server publishes one dictionary, \<open>self.current_emotion_data\<close>. Its keys are
  \<open>emotion\<close>, \<open>confidence\<close>, \<open>timestamp\<close>, \<open>faces_detected\<close> and, depending on the
  branch that built it, \<open>emotion_scores\<close> or \<open>error\<close>. A key that a branch leaves out is
  \<open>None\<close> here.

  A score is a number as the classifier hands it over: a numpy floating value or a
  native float. No arithmetic is done on scores, only the change of representation of
  \<open>convert_numpy_types\<close>, so the payload is a \<open>real\<close>.
\<close>

datatype pynum = NpFloating real | PyFloat real

fun num_val :: "pynum \<Rightarrow> real" where
  "num_val (NpFloating v) = v"
| "num_val (PyFloat v) = v"

type_synonym scores = "string \<rightharpoonup> pynum"

record reading =
  emotion :: string
  confidence :: pynum
  timestamp :: string
  faces_detected :: nat
  emotion_scores :: "scores option"
  error :: "string option"

text \<open>
  A located face is a row \<open>(x, y, w, h)\<close> of the array \<open>detectMultiScale\<close> returns, whose
  elements are signed 32-bit integers. The key of \<open>max\<close> is \<open>face[2] * face[3]\<close>: a product
  of two such integers, which wraps around at \<open>2 ^ 31\<close>, and which \<open>max\<close> compares as a
  signed number.
\<close>

type_synonym region = "32 word \<times> 32 word \<times> 32 word \<times> 32 word"

fun area :: "region \<Rightarrow> int" where
  "area (x, y, w, h) = sint (w * h)"

text \<open>
  One element of the list \<open>DeepFace.analyze\<close> returns: the dictionary under the key
  \<open>emotion\<close> and the label under \<open>dominant_emotion\<close>.
\<close>

record analysis =
  emotion_dist :: scores
  dominant_emotion :: string

text \<open>
  What the call of \<open>DeepFace.analyze\<close> on the crop of a region does (the crop and its colour
  conversion included): it raises an exception with the text \<open>str(e)\<close>, or it returns
  \<open>None\<close> or a list.
\<close>

datatype classify_outcome =
    Raises string
  | ReturnsNone
  | Returns "analysis list"

text \<open>
  Everything the outside world contributes to one call of \<open>process_frame\<close>: the clock
  (\<open>datetime.now().isoformat()\<close> and \<open>time.time()\<close>), what the grey conversion followed by
  \<open>detectMultiScale\<close> does on the frame (\<open>Inl\<close> the text of the exception raised, \<open>Inr\<close> the
  rows found), and the classifier as a function of the region that is cropped.
\<close>

record frame =
  now :: string
  clock :: real
  located :: "string + region list"
  classify :: "region \<Rightarrow> classify_outcome"

text \<open>The result of \<open>cap.read()\<close> in one pass of the loop.\<close>

datatype capture =
    ReadRaises string
  | ReadFailed
  | ReadOk frame

text \<open>
  The fields of the server object. \<open>cap\<close> is \<open>None\<close> or a capture handle, of which only
  the answer of \<open>isOpened()\<close> matters; \<open>face_cascade\<close> is \<open>None\<close> or a classifier, of which
  only \<open>not empty()\<close> matters. The last two fields are not fields of the class: they
  count what the server did to the outside world, the camera devices it opened with
  \<open>cv2.VideoCapture(0)\<close> and the detection threads it started that have not ended.
\<close>

record server =
  port :: nat
  fallback_port :: nat
  cap :: "bool option"
  face_cascade :: "bool option"
  detection_running :: bool
  current_emotion_data :: reading
  frame_skip_count :: nat
  process_every_n_frames :: nat
  last_successful_detection :: real
  camera_opens :: nat
  threads :: nat

section \<open>Construction and the read-only handlers\<close>

definition init :: "nat \<Rightarrow> nat \<Rightarrow> string \<Rightarrow> real \<Rightarrow> server" where
  "init p fp t0 c0 =
     \<lparr> port = p, fallback_port = fp, cap = None, face_cascade = None,
       detection_running = False,
       current_emotion_data =
         \<lparr> emotion = ''unknown'', confidence = PyFloat 0, timestamp = t0,
           faces_detected = 0, emotion_scores = None, error = None \<rparr>,
       frame_skip_count = 0, process_every_n_frames = 3,
       last_successful_detection = c0, camera_opens = 0, threads = 0 \<rparr>"

definition get_emotion :: "server \<Rightarrow> reading" where
  "get_emotion s = current_emotion_data s"

record status =
  status_server_running :: bool
  status_detection_running :: bool
  status_camera_connected :: bool
  status_last_detection :: real
  status_timestamp :: string

definition get_status :: "string \<Rightarrow> server \<Rightarrow> status" where
  "get_status t s =
     \<lparr> status_server_running = True,
       status_detection_running = detection_running s,
       status_camera_connected = (case cap s of None \<Rightarrow> False | Some is_opened \<Rightarrow> is_opened),
       status_last_detection = last_successful_detection s,
       status_timestamp = t \<rparr>"

section \<open>Processing one frame\<close>

fun convert_numpy_types :: "pynum \<Rightarrow> pynum" where
  "convert_numpy_types (NpFloating v) = PyFloat v"
| "convert_numpy_types (PyFloat v) = PyFloat v"

definition convert_numpy_types_dict :: "scores \<Rightarrow> scores" where
  "convert_numpy_types_dict d = (\<lambda>key. map_option convert_numpy_types (d key))"

text \<open>
  Python's \<open>max(faces, key=...)\<close>: the running best is replaced only by an element whose
  key is strictly greater, and an empty argument raises \<open>ValueError\<close>.
\<close>

fun max_key :: "('a \<Rightarrow> int) \<Rightarrow> 'a \<Rightarrow> 'a list \<Rightarrow> 'a" where
  "max_key key best [] = best"
| "max_key key best (f # fs) = max_key key (if key best < key f then f else best) fs"

definition largest_face :: "region list \<Rightarrow> string + region" where
  "largest_face faces =
     (case faces of
        [] \<Rightarrow> Inl ''max() arg is an empty sequence''
      | f # fs \<Rightarrow> Inr (max_key area f fs))"

definition no_face_reading :: "string \<Rightarrow> reading" where
  "no_face_reading t =
     \<lparr> emotion = ''no_face'', confidence = PyFloat 0, timestamp = t,
       faces_detected = 0, emotion_scores = None, error = None \<rparr>"

definition error_reading :: "string \<Rightarrow> string \<Rightarrow> reading" where
  "error_reading t msg =
     \<lparr> emotion = ''error'', confidence = PyFloat 0, timestamp = t,
       faces_detected = 0, emotion_scores = None, error = Some msg \<rparr>"

text \<open>
  \<open>str(KeyError(k))\<close> is \<open>repr(k)\<close>. Python puts a string between single quotes, or
  between double quotes when it holds a single quote and no double quote; it escapes
  the backslash, the quote in use, and the control characters (tab, newline and return
  by letter, the others by their hexadecimal code). A string is a list of bytes here;
  bytes above \<open>0x7f\<close> stand for themselves.
\<close>

definition hex_digit :: "nat \<Rightarrow> char" where
  "hex_digit n = ''0123456789abcdef'' ! (n mod 16)"

definition repr_char :: "char \<Rightarrow> char \<Rightarrow> string" where
  "repr_char quote c =
     (if c = quote \<or> c = CHR 0x5C then [CHR 0x5C, c]
      else if c = CHR 0x09 then [CHR 0x5C, CHR ''t'']
      else if c = CHR 0x0A then [CHR 0x5C, CHR ''n'']
      else if c = CHR 0x0D then [CHR 0x5C, CHR ''r'']
      else if (of_char c :: nat) < 32 \<or> (of_char c :: nat) = 127 then
        [CHR 0x5C, CHR ''x'', hex_digit (of_char c div 16), hex_digit (of_char c)]
      else [c])"

definition py_repr :: "string \<Rightarrow> string" where
  "py_repr k =
     (let quote = (if CHR 0x27 \<in> set k \<and> CHR 0x22 \<notin> set k then CHR 0x22 else CHR 0x27)
      in quote # concat (map (repr_char quote) k) @ [quote])"

definition key_error_text :: "string \<Rightarrow> string" where
  "key_error_text k = py_repr k"

text \<open>
  \<open>process_frame\<close> never raises: its body is one \<open>try\<close> block whose handler writes the
  error reading. The debug message formatted after a success cannot fail on a float.
\<close>

definition process_frame :: "frame \<Rightarrow> server \<Rightarrow> server" where
  "process_frame fr s =
     (case located fr of
        Inl msg \<Rightarrow> s\<lparr>current_emotion_data := error_reading (now fr) msg\<rparr>
      | Inr faces \<Rightarrow>
          if length faces = 0 then s\<lparr>current_emotion_data := no_face_reading (now fr)\<rparr>
          else
            (case largest_face faces of
               Inl msg \<Rightarrow> s\<lparr>current_emotion_data := error_reading (now fr) msg\<rparr>
             | Inr face \<Rightarrow>
                 (case classify fr face of
                    Raises msg \<Rightarrow> s\<lparr>current_emotion_data := error_reading (now fr) msg\<rparr>
                  | ReturnsNone \<Rightarrow> s
                  | Returns [] \<Rightarrow> s
                  | Returns (res # _) \<Rightarrow>
                      (case emotion_dist res (dominant_emotion res) of
                         None \<Rightarrow>
                           s\<lparr>current_emotion_data :=
                               error_reading (now fr) (key_error_text (dominant_emotion res))\<rparr>
                       | Some conf \<Rightarrow>
                           s\<lparr>current_emotion_data :=
                               \<lparr> emotion = dominant_emotion res,
                                 confidence = convert_numpy_types conf,
                                 timestamp = now fr,
                                 faces_detected = length faces,
                                 emotion_scores =
                                   Some (convert_numpy_types_dict (emotion_dist res)),
                                 error = None \<rparr>,
                             last_successful_detection := clock fr\<rparr>))))"

section \<open>Starting and stopping detection\<close>

text \<open>
  What \<open>cv2.CascadeClassifier(...)\<close> does in \<open>initialize_face_cascade\<close>: it raises, it
  returns a classifier that is empty, or it returns a loaded one.
\<close>

datatype cascade_outcome =
    CascadeRaises string
  | CascadeEmpty
  | CascadeLoads

definition initialize_face_cascade :: "cascade_outcome \<Rightarrow> server \<Rightarrow> bool \<times> server" where
  "initialize_face_cascade c s =
     (case c of
        CascadeRaises msg \<Rightarrow> (False, s)
      | CascadeEmpty \<Rightarrow> (False, s\<lparr>face_cascade := Some False\<rparr>)
      | CascadeLoads \<Rightarrow> (True, s\<lparr>face_cascade := Some True\<rparr>))"

text \<open>
  What the camera does in \<open>initialize_camera\<close>: \<open>cv2.VideoCapture(0)\<close> raises, or it
  returns a handle that is not opened, or an opened one; on an opened one the three
  \<open>cap.set\<close> calls return or one of them raises. A handle held before is released
  first, in every case.
\<close>

datatype camera_outcome =
    CameraRaises string
  | CameraNotOpened
  | CameraOpenedConfigRaises string
  | CameraOpened

definition release :: "server \<Rightarrow> server" where
  "release s = (case cap s of None \<Rightarrow> s | Some is_opened \<Rightarrow> s\<lparr>cap := Some False\<rparr>)"

definition initialize_camera :: "camera_outcome \<Rightarrow> server \<Rightarrow> bool \<times> server" where
  "initialize_camera k s =
     (case k of
        CameraRaises msg \<Rightarrow> (False, release s)
      | CameraNotOpened \<Rightarrow> (False, (release s)\<lparr>cap := Some False\<rparr>)
      | CameraOpenedConfigRaises msg \<Rightarrow>
          (False, (release s)\<lparr>cap := Some True, camera_opens := camera_opens s + 1\<rparr>)
      | CameraOpened \<Rightarrow>
          (True, (release s)\<lparr>cap := Some True, camera_opens := camera_opens s + 1\<rparr>))"

definition start_camera_detection ::
    "cascade_outcome \<Rightarrow> camera_outcome \<Rightarrow> server \<Rightarrow> bool \<times> server" where
  "start_camera_detection c k s =
     (if detection_running s then (True, s)
      else
        (case initialize_face_cascade c s of
           (False, s1) \<Rightarrow> (False, s1)
         | (True, s1) \<Rightarrow>
             (case initialize_camera k s1 of
                (False, s2) \<Rightarrow> (False, s2)
              | (True, s2) \<Rightarrow>
                  (True, s2\<lparr>detection_running := True, threads := threads s2 + 1\<rparr>))))"

definition stop_camera_detection :: "server \<Rightarrow> server" where
  "stop_camera_detection s = s\<lparr>detection_running := False, cap := None\<rparr>"

text \<open>A sequence of \<open>start\<close> calls, each with what the cascade and the camera would do.\<close>

fun start_calls :: "(cascade_outcome \<times> camera_outcome) list \<Rightarrow> server \<Rightarrow> bool list \<times> server" where
  "start_calls [] s = ([], s)"
| "start_calls ((c, k) # ws) s =
     (case start_camera_detection c k s of
        (ok, s1) \<Rightarrow> (case start_calls ws s1 of (oks, s2) \<Rightarrow> (ok # oks, s2)))"

section \<open>The detection loop\<close>

text \<open>
  One pass is the test of \<open>while self.detection_running\<close> followed by the loop body. It
  either goes on to the next pass (\<open>Continue\<close>: the \<open>continue\<close> statements, the end of the
  body and the exception handler) or ends the loop (\<open>Exit\<close>: the test fails, or the
  \<open>break\<close> when the camera is not available). The capture of a pass is read only when the
  pass gets as far as \<open>cap.read()\<close>. The pauses (\<open>time.sleep\<close>) are not modelled.
\<close>

datatype loop_ctl = Continue | Exit

definition loop_body :: "capture \<Rightarrow> server \<Rightarrow> loop_ctl \<times> server" where
  "loop_body c s =
     (let s1 = s\<lparr>frame_skip_count := frame_skip_count s + 1\<rparr> in
      if frame_skip_count s1 < process_every_n_frames s1 then (Continue, s1)
      else
        (let s2 = s1\<lparr>frame_skip_count := 0\<rparr> in
         case cap s2 of
           None \<Rightarrow> (Exit, s2)
         | Some False \<Rightarrow> (Exit, s2)
         | Some True \<Rightarrow>
             (case c of
                ReadRaises msg \<Rightarrow> (Continue, s2)
              | ReadFailed \<Rightarrow> (Continue, s2)
              | ReadOk fr \<Rightarrow> (Continue, process_frame fr s2))))"

definition loop_pass :: "capture \<Rightarrow> server \<Rightarrow> loop_ctl \<times> server" where
  "loop_pass c s = (if detection_running s then loop_body c s else (Exit, s))"

text \<open>
  The loop has no bound of its own. It is run on the captures of a finite number of
  passes: the result is \<open>Exit\<close> when the loop ended within them and \<open>Continue\<close> when it
  is still looping after the last one.
\<close>

fun detection_loop :: "capture list \<Rightarrow> server \<Rightarrow> loop_ctl \<times> server" where
  "detection_loop [] s = (Continue, s)"
| "detection_loop (c # cs) s =
     (case loop_pass c s of
        (Exit, s1) \<Rightarrow> (Exit, s1)
      | (Continue, s1) \<Rightarrow> detection_loop cs s1)"

section \<open>The server among its callers\<close>

text \<open>
  What can happen to a server, one event after the other: a \<open>start\<close> or a \<open>stop\<close> request,
  the camera device going away under an existing handle (from then on \<open>isOpened()\<close>
  is false), and one pass of a detection
  thread (none when no thread is alive; a thread whose pass ends the loop is gone).
  Requests that only read are left out.
\<close>

definition device_lost :: "server \<Rightarrow> server" where
  "device_lost s = (case cap s of None \<Rightarrow> s | Some is_opened \<Rightarrow> s\<lparr>cap := Some False\<rparr>)"

datatype event =
    Start cascade_outcome camera_outcome
  | Stop
  | DeviceLost
  | LoopPass capture

fun step :: "event \<Rightarrow> server \<Rightarrow> server" where
  "step (Start c k) s = snd (start_camera_detection c k s)"
| "step Stop s = stop_camera_detection s"
| "step DeviceLost s = device_lost s"
| "step (LoopPass c) s =
     (if threads s = 0 then s
      else
        (case loop_pass c s of
           (Exit, s1) \<Rightarrow> s1\<lparr>threads := threads s1 - 1\<rparr>
         | (Continue, s1) \<Rightarrow> s1))"

fun run :: "event list \<Rightarrow> server \<Rightarrow> server" where
  "run [] s = s"
| "run (e # es) s = run es (step e s)"

section \<open>Binding the port\<close>

text \<open>
  What can leave \<open>app.run\<close>: an \<open>OSError\<close> or another \<open>Exception\<close>, each with its text, or
  \<open>SystemExit\<close> with an exit code, which is not an \<open>Exception\<close> and which no handler of
  \<open>run_server\<close> catches.
\<close>

datatype exn = OSError string | OtherException string | SystemExit int

text \<open>
  \<open>app.run\<close> on a port either serves until the server is shut down and returns, or
  raises.
\<close>

datatype run_outcome = Serves | Fails exn

text \<open>Python's \<open>needle in haystack\<close> on strings.\<close>

fun contains_str :: "string \<Rightarrow> string \<Rightarrow> bool" where
  "contains_str needle [] = (needle = [])"
| "contains_str needle (c # cs) =
     (take (length needle) (c # cs) = needle \<or> contains_str needle cs)"

text \<open>
  \<open>run_server\<close>, given what \<open>app.run\<close> does on the primary port and what it would do on
  the fallback port: \<open>Inr\<close> the port that was served, \<open>Inl\<close> the exception that leaves
  \<open>run_server\<close>.
\<close>

definition run_server :: "run_outcome \<Rightarrow> run_outcome \<Rightarrow> server \<Rightarrow> exn + nat" where
  "run_server primary secondary s =
     (case primary of
        Serves \<Rightarrow> Inr (port s)
      | Fails (OSError msg) \<Rightarrow>
          if contains_str ''Address already in use'' msg then
            (case secondary of
               Serves \<Rightarrow> Inr (fallback_port s)
             | Fails fallback_error \<Rightarrow> Inl fallback_error)
          else Inl (OSError msg)
      | Fails (OtherException msg) \<Rightarrow> Inl (OtherException msg)
      | Fails (SystemExit code) \<Rightarrow> Inl (SystemExit code))"

section \<open>Shapes of readings and captures\<close>

text \<open>
  A capture on which the loop gets as far as the classifier and the classifier raises:
  the frame was read, the locator found at least one face, and the call on the largest
  face raises.
\<close>

definition raising_capture :: "capture \<Rightarrow> bool" where
  "raising_capture c =
     (case c of
        ReadOk fr \<Rightarrow>
          (case located fr of
             Inr faces \<Rightarrow>
               (case largest_face faces of
                  Inr f \<Rightarrow> (case classify fr f of Raises msg \<Rightarrow> True | _ \<Rightarrow> False)
                | Inl msg \<Rightarrow> False)
           | Inl msg \<Rightarrow> False)
      | _ \<Rightarrow> False)"

text \<open>The reading of the exception handler of \<open>process_frame\<close>, whatever its time and text.\<close>

definition error_shape :: "reading \<Rightarrow> bool" where
  "error_shape r =
     (emotion r = ''error'' \<and> confidence r = PyFloat 0 \<and> faces_detected r = 0
      \<and> emotion_scores r = None \<and> error r \<noteq> None)"

text \<open>
  No face is counted exactly in the readings that carry one of the three fixed emotions
  and no scores.
\<close>

definition sentinel_shape :: "reading \<Rightarrow> bool" where
  "sentinel_shape r =
     ((faces_detected r = 0) =
      (emotion r \<in> {''unknown'', ''no_face'', ''error''} \<and> emotion_scores r = None))"

section \<open>Concrete scenarios\<close>

text \<open>
  The inputs at which the theorems below are evaluated. The first is the scenario of
  two faces, 40 by 40 and 60 by 60, where the classifier answers on the larger crop.
  The second has four faces: the widest one (which is also the one furthest right), the
  tallest one (also the lowest), and two of the same, largest area, of which the first
  is the one the classifier answers on. The others are a frame with one face and a
  classifier that returns an empty list or raises with a given text, a server as
  constructed with the default ports, and that server after a successful \<open>start\<close>.
\<close>

definition scenario_classifier :: "region \<Rightarrow> classify_outcome" where
  "scenario_classifier face =
     (if face = (200, 80, 60, 60)
      then Returns [\<lparr> emotion_dist = [''happy'' \<mapsto> NpFloating 81.2, ''sad'' \<mapsto> NpFloating 3.1],
                      dominant_emotion = ''happy'' \<rparr>]
      else Raises ''unexpected crop'')"

definition scenario_frame :: frame where
  "scenario_frame =
     \<lparr> now = ''2024-01-01T00:00:01'', clock = 1,
       located = Inr [(10, 10, 40, 40), (200, 80, 60, 60)],
       classify = scenario_classifier \<rparr>"

definition four_face_classifier :: "region \<Rightarrow> classify_outcome" where
  "four_face_classifier face =
     (if face = (50, 50, 60, 60)
      then Returns [\<lparr> emotion_dist = [''neutral'' \<mapsto> NpFloating 64.5, ''happy'' \<mapsto> NpFloating 20],
                      dominant_emotion = ''neutral'' \<rparr>]
      else Raises ''unexpected crop'')"

definition four_face_frame :: frame where
  "four_face_frame =
     \<lparr> now = ''2024-01-01T00:00:05'', clock = 5,
       located = Inr [(300, 10, 100, 30), (10, 300, 30, 90), (50, 50, 60, 60), (70, 70, 40, 90)],
       classify = four_face_classifier \<rparr>"

definition empty_classifier :: "region \<Rightarrow> classify_outcome" where
  "empty_classifier face = Returns []"

definition raising_classifier :: "string \<Rightarrow> region \<Rightarrow> classify_outcome" where
  "raising_classifier msg face = Raises msg"

definition one_face_frame :: "(region \<Rightarrow> classify_outcome) \<Rightarrow> frame" where
  "one_face_frame cl =
     \<lparr> now = ''2024-01-01T00:00:02'', clock = 2, located = Inr [(10, 10, 50, 50)],
       classify = cl \<rparr>"

definition raising_passes :: "capture list" where
  "raising_passes = replicate 3 (ReadOk (one_face_frame (raising_classifier ''out of memory'')))"

definition fresh_server :: server where
  "fresh_server = init 5001 5002 ''2024-01-01T00:00:00'' 0"

definition started_server :: server where
  "started_server = snd (start_camera_detection CascadeLoads CameraOpened fresh_server)"

section \<open>The no-face branch\<close>

text \<open>
  C5. When the face locator returns an empty list for a frame, \<open>process_frame\<close>
  replaces the current reading by one with emotion \<open>no_face\<close>, confidence 0, no faces
  detected, the time of this frame as timestamp, and neither scores nor an error text;
  nothing else of the server changes. The new dictionary is built first and put in
  place by one assignment.
\<close>

theorem no_face_replaces_reading:
  "process_frame (fr\<lparr>located := Inr []\<rparr>) s =
     s\<lparr>current_emotion_data :=
         \<lparr> emotion = ''no_face'', confidence = PyFloat 0, timestamp = now fr,
           faces_detected = 0, emotion_scores = None, error = None \<rparr>\<rparr>"
  by (simp add: process_frame_def no_face_reading_def)

section \<open>The success branch\<close>

lemma max_key_keeps: "\<forall>g\<in>set post. key g \<le> key f \<Longrightarrow> max_key key f post = f"
  by (induction post) auto

lemma max_key_first_max:
  "key best < key f \<Longrightarrow> \<forall>g\<in>set pre. key g < key f \<Longrightarrow> \<forall>g\<in>set post. key g \<le> key f
     \<Longrightarrow> max_key key best (pre @ f # post) = f"
  by (induction pre arbitrary: best) (auto simp: max_key_keeps)

lemma largest_face_first_max:
  assumes "\<forall>g\<in>set pre. area g < area f" and "\<forall>g\<in>set post. area g \<le> area f"
  shows "largest_face (pre @ f # post) = Inr f"
proof (cases pre)
  case Nil
  with assms(2) show ?thesis by (simp add: largest_face_def max_key_keeps)
next
  case (Cons p ps)
  with assms show ?thesis by (simp add: largest_face_def max_key_first_max)
qed

text \<open>
  Every non-empty list has a first element of maximal key, so the shape that the next
  theorem asks of the list of regions leaves no non-empty list out.
\<close>

lemma first_max_exists:
  fixes key :: "'a \<Rightarrow> int"
  assumes "xs \<noteq> []"
  shows "\<exists>pre f post. xs = pre @ f # post
      \<and> (\<forall>g\<in>set pre. key g < key f) \<and> (\<forall>g\<in>set post. key g \<le> key f)"
proof -
  define m where "m = Max (key ` set xs)"
  from assms have "m \<in> key ` set xs" unfolding m_def by (intro Max_in) simp_all
  then have "\<exists>f\<in>set xs. key f = m" by (metis imageE)
  then obtain pre f post
    where split: "xs = pre @ f # post" and top: "key f = m"
      and before: "\<forall>g\<in>set pre. key g \<noteq> m"
    using split_list_first_prop [of xs "\<lambda>f. key f = m"] by blast
  have le: "key g \<le> m" if "g \<in> set xs" for g
    using that unfolding m_def by (intro Max_ge) simp_all
  have "\<forall>g\<in>set pre. key g < key f"
  proof
    fix g assume "g \<in> set pre"
    with split before le [of g] top show "key g < key f" by auto
  qed
  moreover have "\<forall>g\<in>set post. key g \<le> key f"
  proof
    fix g assume "g \<in> set post"
    with split le [of g] top show "key g \<le> key f" by auto
  qed
  ultimately show ?thesis using split by blast
qed

lemma convert_numpy_types_val: "convert_numpy_types v = PyFloat (num_val v)"
  by (cases v) simp_all

text \<open>
  The 32-bit product is the area itself as long as the area is below \<open>2 ^ 31\<close>, which
  it is for every region of a frame of fewer than \<open>2 ^ 31\<close> pixels.
\<close>

lemma product_fits:
  fixes w h :: "32 word"
  assumes "0 \<le> sint w" and "0 \<le> sint h" and "sint w * sint h < 2 ^ 31"
  shows "sint (w * h) = sint w * sint h"
proof -
  from assms(1,2) have "0 \<le> sint w * sint h" by simp
  with assms(3) have "signed_take_bit 31 (sint w * sint h) = sint w * sint h"
    by (intro signed_take_bit_int_eq_self) simp_all
  then show ?thesis by (simp add: sint_word_ariths)
qed

lemma area_fits:
  assumes "g \<in> set gs"
    and "\<forall>(x, y, w, h)\<in>set gs. 0 \<le> sint w \<and> 0 \<le> sint h \<and> sint w * sint h < 2 ^ 31"
  shows "area g = (case g of (x, y, w, h) \<Rightarrow> sint w * sint h)"
proof -
  obtain x y w h where g: "g = (x, y, w, h)" by (cases g)
  with assms have "0 \<le> sint w" "0 \<le> sint h" "sint w * sint h < 2 ^ 31" by auto
  then have "sint (w * h) = sint w * sint h" by (rule product_fits)
  with g show ?thesis by simp
qed

text \<open>
  Beyond that bound the product wraps around and the largest region loses: of a region
  of 50 by 50 and one of 46341 by 46341, whose product is negative as a signed 32-bit
  number, the small one is selected. Such a region takes a frame of more than \<open>2 ^ 31\<close>
  pixels.
\<close>

lemma area_wraps_beyond_bound:
  "area (0, 0, 46341, 46341) = - 2147479015
   \<and> largest_face [(0, 0, 50, 50), (0, 0, 46341, 46341)] = Inr (0, 0, 50, 50)"
  by (simp add: largest_face_def)

text \<open>
  C4. Let the locator return regions whose widths and heights are not negative and whose
  areas \<open>w * h\<close> are below \<open>2 ^ 31\<close> (regions of a frame of fewer than \<open>2 ^ 31\<close> pixels),
  and let \<open>(fx, fy, fw, fh)\<close> be a region of the list such that \<open>w * h < fw * fh\<close> for
  every region before it and \<open>w * h \<le> fw * fh\<close> for every region after it: it has
  maximal area, and is the first that has. Then it is the region the engine selects, and
  when the classifier, on this region, returns a non-empty list whose first element has
  a score for its dominant label, \<open>process_frame\<close> replaces the reading: the emotion is
  the dominant label, the confidence is that label's score, \<open>faces_detected\<close> is the
  length of the whole list of regions, and the scores are the full distribution (every
  label with its number, as native floats). The time of the last successful detection
  is set as well.
\<close>

theorem success_replaces_reading:
  assumes "located fr = Inr (pre @ (fx, fy, fw, fh) # post)"
    and "\<forall>(x, y, w, h)\<in>set (pre @ (fx, fy, fw, fh) # post).
           0 \<le> sint w \<and> 0 \<le> sint h \<and> sint w * sint h < 2 ^ 31"
    and "\<forall>(x, y, w, h)\<in>set pre. sint w * sint h < sint fw * sint fh"
    and "\<forall>(x, y, w, h)\<in>set post. sint w * sint h \<le> sint fw * sint fh"
    and "classify fr (fx, fy, fw, fh) = Returns (res # others)"
    and "emotion_dist res (dominant_emotion res) = Some conf"
  shows "largest_face (pre @ (fx, fy, fw, fh) # post) = Inr (fx, fy, fw, fh) \<and>
     process_frame fr s =
       s\<lparr>current_emotion_data :=
           \<lparr> emotion = dominant_emotion res,
             confidence = PyFloat (num_val conf),
             timestamp = now fr,
             faces_detected = length (pre @ (fx, fy, fw, fh) # post),
             emotion_scores =
               Some (\<lambda>label. map_option (\<lambda>v. PyFloat (num_val v)) (emotion_dist res label)),
             error = None \<rparr>,
         last_successful_detection := clock fr\<rparr>"
proof -
  let ?f = "(fx, fy, fw, fh)"
  let ?faces = "pre @ ?f # post"
  have fits: "area g = (case g of (x, y, w, h) \<Rightarrow> sint w * sint h)" if "g \<in> set ?faces" for g
    using that assms(2) by (rule area_fits)
  have f: "area ?f = sint fw * sint fh"
    using fits [of ?f] by simp
  have before: "\<forall>g\<in>set pre. area g < area ?f"
  proof
    fix g assume g: "g \<in> set pre"
    with assms(3) have "(case g of (x, y, w, h) \<Rightarrow> sint w * sint h) < sint fw * sint fh"
      by auto
    moreover from g have "g \<in> set ?faces" by simp
    ultimately show "area g < area ?f" using fits [of g] f by simp
  qed
  have after: "\<forall>g\<in>set post. area g \<le> area ?f"
  proof
    fix g assume g: "g \<in> set post"
    with assms(4) have "(case g of (x, y, w, h) \<Rightarrow> sint w * sint h) \<le> sint fw * sint fh"
      by auto
    moreover from g have "g \<in> set ?faces" by simp
    ultimately show "area g \<le> area ?f" using fits [of g] f by simp
  qed
  have sel: "largest_face ?faces = Inr ?f"
    using before after by (rule largest_face_first_max)
  have conv: "convert_numpy_types_dict (emotion_dist res) =
      (\<lambda>label. map_option (\<lambda>v. PyFloat (num_val v)) (emotion_dist res label))"
  proof -
    have "convert_numpy_types = (\<lambda>v. PyFloat (num_val v))"
      by (rule ext) (rule convert_numpy_types_val)
    then show ?thesis by (simp add: convert_numpy_types_dict_def)
  qed
  have "process_frame fr s =
       s\<lparr>current_emotion_data :=
           \<lparr> emotion = dominant_emotion res,
             confidence = PyFloat (num_val conf),
             timestamp = now fr,
             faces_detected = length ?faces,
             emotion_scores =
               Some (\<lambda>label. map_option (\<lambda>v. PyFloat (num_val v)) (emotion_dist res label)),
             error = None \<rparr>,
         last_successful_detection := clock fr\<rparr>"
    using assms(1,5,6) sel
    by (simp add: process_frame_def conv convert_numpy_types_val)
  with sel show ?thesis by simp
qed

text \<open>
  The frame of four faces: the face selected is the first of the two of area 3600, not
  the widest, the tallest, the rightmost, the lowest or the last of the largest; four
  faces are counted. And the scenario of two faces: the 60 by 60 face is classified, and
  two faces are counted.
\<close>

theorem success_replaces_reading_witness:
  "largest_face [(300, 10, 100, 30), (10, 300, 30, 90), (50, 50, 60, 60), (70, 70, 40, 90)]
     = Inr (50, 50, 60, 60)
   \<and> emotion (get_emotion (process_frame four_face_frame fresh_server)) = ''neutral''
   \<and> confidence (get_emotion (process_frame four_face_frame fresh_server)) = PyFloat 64.5
   \<and> faces_detected (get_emotion (process_frame four_face_frame fresh_server)) = 4
   \<and> largest_face [(10, 10, 40, 40), (200, 80, 60, 60)] = Inr (200, 80, 60, 60)
   \<and> emotion (get_emotion (process_frame scenario_frame fresh_server)) = ''happy''
   \<and> confidence (get_emotion (process_frame scenario_frame fresh_server)) = PyFloat 81.2
   \<and> faces_detected (get_emotion (process_frame scenario_frame fresh_server)) = 2
   \<and> emotion_scores (get_emotion (process_frame scenario_frame fresh_server))
       = Some [''happy'' \<mapsto> PyFloat 81.2, ''sad'' \<mapsto> PyFloat 3.1]
   \<and> error (get_emotion (process_frame scenario_frame fresh_server)) = None"
  using
    success_replaces_reading [of four_face_frame "[(300, 10, 100, 30), (10, 300, 30, 90)]"
      50 50 60 60 "[(70, 70, 40, 90)]"
      "\<lparr> emotion_dist = [''neutral'' \<mapsto> NpFloating 64.5, ''happy'' \<mapsto> NpFloating 20],
         dominant_emotion = ''neutral'' \<rparr>" "[]" "NpFloating 64.5" fresh_server]
    success_replaces_reading [of scenario_frame "[(10, 10, 40, 40)]" 200 80 60 60 "[]"
      "\<lparr> emotion_dist = [''happy'' \<mapsto> NpFloating 81.2, ''sad'' \<mapsto> NpFloating 3.1],
         dominant_emotion = ''happy'' \<rparr>" "[]" "NpFloating 81.2" fresh_server]
  by (simp add: four_face_frame_def four_face_classifier_def scenario_frame_def
        scenario_classifier_def get_emotion_def fun_eq_iff)

section \<open>A classifier that returns nothing\<close>

text \<open>
  C10. When the classifier returns without raising and its result is the empty list
  (or \<open>None\<close>), \<open>process_frame\<close> leaves the whole server as it was: the reading, which
  may be stale, and the time of the last successful detection included.
\<close>

theorem empty_result_leaves_server:
  assumes "located fr = Inr faces"
    and "largest_face faces = Inr f"
    and "classify fr f = Returns [] \<or> classify fr f = ReturnsNone"
  shows "process_frame fr s = s"
proof -
  from assms(2) have "faces \<noteq> []" by (auto simp: largest_face_def)
  with assms show ?thesis by (auto simp: process_frame_def)
qed

theorem empty_result_leaves_server_witness:
  "process_frame (one_face_frame empty_classifier) (process_frame scenario_frame fresh_server)
     = process_frame scenario_frame fresh_server"
  using empty_result_leaves_server [of "one_face_frame empty_classifier" "[(10, 10, 50, 50)]"
      "(10, 10, 50, 50)" "process_frame scenario_frame fresh_server"]
  by (simp add: one_face_frame_def empty_classifier_def largest_face_def)

section \<open>A classifier that raises\<close>

lemma process_frame_keeps:
  "detection_running (process_frame fr s) = detection_running s"
  "cap (process_frame fr s) = cap s"
  "frame_skip_count (process_frame fr s) = frame_skip_count s"
  "process_every_n_frames (process_frame fr s) = process_every_n_frames s"
  "threads (process_frame fr s) = threads s"
  by (simp_all add: process_frame_def
      split: sum.splits classify_outcome.splits list.splits option.splits)

lemma raise_gives_error_reading:
  assumes "located fr = Inr faces" and "largest_face faces = Inr f" and "classify fr f = Raises msg"
  shows "process_frame fr s = s\<lparr>current_emotion_data := error_reading (now fr) msg\<rparr>"
proof -
  from assms(2) have "faces \<noteq> []" by (auto simp: largest_face_def)
  with assms show ?thesis by (simp add: process_frame_def)
qed

lemma raising_capture_error_shape:
  assumes "raising_capture (ReadOk fr)"
  shows "error_shape (current_emotion_data (process_frame fr s))"
proof -
  from assms obtain faces f msg
    where "located fr = Inr faces" "largest_face faces = Inr f" "classify fr f = Raises msg"
    by (auto simp: raising_capture_def split: sum.splits classify_outcome.splits)
  then have "process_frame fr s = s\<lparr>current_emotion_data := error_reading (now fr) msg\<rparr>"
    by (rule raise_gives_error_reading)
  then show ?thesis by (simp add: error_shape_def error_reading_def)
qed

text \<open>
  With the flag set and the camera open, a pass goes on to the next one whatever the
  capture is: only the flag and the camera check end the loop.
\<close>

lemma loop_pass_goes_on:
  assumes "detection_running s" and "cap s = Some True"
  shows "fst (loop_pass c s) = Continue
       \<and> detection_running (snd (loop_pass c s)) \<and> cap (snd (loop_pass c s)) = Some True
       \<and> process_every_n_frames (snd (loop_pass c s)) = process_every_n_frames s"
  using assms
  by (cases c) (simp_all add: loop_pass_def loop_body_def Let_def process_frame_keeps)

lemma detection_loop_goes_on:
  "detection_running s \<Longrightarrow> cap s = Some True \<Longrightarrow>
     fst (detection_loop cs s) = Continue \<and> detection_running (snd (detection_loop cs s))"
proof (induction cs arbitrary: s)
  case Nil
  then show ?case by simp
next
  case (Cons c cs)
  from loop_pass_goes_on [OF Cons.prems, of c] Cons.IH [of "snd (loop_pass c s)"]
  show ?case by (cases "loop_pass c s") simp
qed

text \<open>A pass on a raising capture is skipped by the frame counter or ends in the handler.\<close>

lemma loop_pass_raising:
  assumes "detection_running s" and "cap s = Some True" and "raising_capture c"
  shows "(current_emotion_data (snd (loop_pass c s)) = current_emotion_data s
            \<and> frame_skip_count (snd (loop_pass c s)) = frame_skip_count s + 1
            \<and> frame_skip_count s + 1 < process_every_n_frames s)
         \<or> (error_shape (current_emotion_data (snd (loop_pass c s)))
            \<and> process_every_n_frames s \<le> frame_skip_count s + 1)"
proof (cases c)
  case (ReadOk fr)
  with assms(3) have "error_shape (current_emotion_data (process_frame fr s'))" for s'
    by (simp add: raising_capture_error_shape)
  with assms(1,2) ReadOk show ?thesis
    by (simp add: loop_pass_def loop_body_def Let_def)
qed (use assms(3) in \<open>simp_all add: raising_capture_def\<close>)

lemma loop_pass_keeps_error_shape:
  assumes "detection_running s" and "cap s = Some True" and "raising_capture c"
    and "error_shape (current_emotion_data s)"
  shows "error_shape (current_emotion_data (snd (loop_pass c s)))"
  using loop_pass_raising [OF assms(1-3)] assms(4) by auto

lemma detection_loop_keeps_error_shape:
  "detection_running s \<Longrightarrow> cap s = Some True \<Longrightarrow> \<forall>c\<in>set cs. raising_capture c \<Longrightarrow>
     error_shape (current_emotion_data s) \<Longrightarrow>
     error_shape (current_emotion_data (snd (detection_loop cs s)))"
proof (induction cs arbitrary: s)
  case Nil
  then show ?case by simp
next
  case (Cons c cs)
  let ?s1 = "snd (loop_pass c s)"
  from Cons.prems have rc: "raising_capture c" and rcs: "\<forall>c\<in>set cs. raising_capture c"
    by simp_all
  from loop_pass_goes_on [OF Cons.prems(1,2), of c]
  have go: "fst (loop_pass c s) = Continue" "detection_running ?s1" "cap ?s1 = Some True"
    by simp_all
  from loop_pass_keeps_error_shape [OF Cons.prems(1,2) rc Cons.prems(4)]
  have "error_shape (current_emotion_data ?s1)" .
  from Cons.IH [OF go(2,3) rcs this] go(1) show ?case
    by (cases "loop_pass c s") simp
qed

lemma detection_loop_raising:
  "detection_running s \<Longrightarrow> cap s = Some True \<Longrightarrow> \<forall>c\<in>set cs. raising_capture c \<Longrightarrow>
     process_every_n_frames s \<le> frame_skip_count s + length cs \<Longrightarrow> cs \<noteq> [] \<Longrightarrow>
     error_shape (current_emotion_data (snd (detection_loop cs s)))"
proof (induction cs arbitrary: s)
  case Nil
  then show ?case by simp
next
  case (Cons c cs)
  let ?s1 = "snd (loop_pass c s)"
  from Cons.prems have rc: "raising_capture c" and rcs: "\<forall>c\<in>set cs. raising_capture c"
    by simp_all
  from loop_pass_goes_on [OF Cons.prems(1,2), of c]
  have go: "fst (loop_pass c s) = Continue" "detection_running ?s1" "cap ?s1 = Some True"
    and n: "process_every_n_frames ?s1 = process_every_n_frames s" by simp_all
  from go(1) have unfold: "detection_loop (c # cs) s = detection_loop cs ?s1"
    by (cases "loop_pass c s") simp
  from loop_pass_raising [OF Cons.prems(1,2) rc]
  consider (skipped) "current_emotion_data ?s1 = current_emotion_data s"
      "frame_skip_count ?s1 = frame_skip_count s + 1"
      "frame_skip_count s + 1 < process_every_n_frames s"
    | (processed) "error_shape (current_emotion_data ?s1)"
    by blast
  then show ?case
  proof cases
    case skipped
    with Cons.prems(4) have "cs \<noteq> []" by auto
    moreover from skipped Cons.prems(4) n
    have "process_every_n_frames ?s1 \<le> frame_skip_count ?s1 + length cs" by simp
    ultimately show ?thesis using Cons.IH [OF go(2,3) rcs] unfold by simp
  next
    case processed
    from detection_loop_keeps_error_shape [OF go(2,3) rcs processed] unfold
    show ?thesis by simp
  qed
qed

text \<open>
  C6, as the code has it. When the classifier raises on the largest face,
  \<open>process_frame\<close> replaces the reading by one with emotion \<open>error\<close>, confidence 0, no
  faces detected, the time of this frame, no scores, and as error text the text of the
  exception, \<open>str(e)\<close>, whatever it is. A loop whose flag is set and whose camera is open
  goes on after every pass, on any captures; and when the classifier raises in every
  pass, then as soon as the frame counter lets one frame through, the current reading is
  an error reading with an error text.
\<close>

theorem classifier_failure_contained:
  assumes "detection_running s" and "cap s = Some True"
  shows "(located fr = Inr faces \<and> largest_face faces = Inr f \<and> classify fr f = Raises msg \<longrightarrow>
            process_frame fr s0 =
              s0\<lparr>current_emotion_data :=
                   \<lparr> emotion = ''error'', confidence = PyFloat 0, timestamp = now fr,
                     faces_detected = 0, emotion_scores = None, error = Some msg \<rparr>\<rparr>)
       \<and> fst (loop_pass c s) = Continue
       \<and> fst (detection_loop cs s) = Continue
       \<and> detection_running (snd (detection_loop cs s))
       \<and> ((\<forall>c\<in>set cs. raising_capture c) \<and> cs \<noteq> []
            \<and> process_every_n_frames s \<le> frame_skip_count s + length cs \<longrightarrow>
          error_shape (get_emotion (snd (detection_loop cs s))))"
proof -
  have "process_frame fr s0 = s0\<lparr>current_emotion_data := error_reading (now fr) msg\<rparr>"
    if "located fr = Inr faces" "largest_face faces = Inr f" "classify fr f = Raises msg"
    using that by (rule raise_gives_error_reading)
  moreover from assms have "fst (loop_pass c s) = Continue"
    by (simp add: loop_pass_goes_on)
  moreover from assms have "fst (detection_loop cs s) = Continue"
    "detection_running (snd (detection_loop cs s))"
    by (simp_all add: detection_loop_goes_on)
  moreover have "error_shape (get_emotion (snd (detection_loop cs s)))"
    if "\<forall>c\<in>set cs. raising_capture c" "cs \<noteq> []"
      "process_every_n_frames s \<le> frame_skip_count s + length cs"
    using detection_loop_raising [OF assms that(1,3,2)] by (simp add: get_emotion_def)
  ultimately show ?thesis by (simp add: error_reading_def)
qed

text \<open>Three passes of a started server, the classifier raising in each of them.\<close>

theorem classifier_failure_contained_witness:
  "fst (detection_loop raising_passes started_server) = Continue
   \<and> detection_running (snd (detection_loop raising_passes started_server))
   \<and> emotion (get_emotion (snd (detection_loop raising_passes started_server))) = ''error''
   \<and> error (get_emotion (snd (detection_loop raising_passes started_server)))
       = Some ''out of memory''
   \<and> process_frame (one_face_frame (raising_classifier ''out of memory'')) fresh_server =
       fresh_server\<lparr>current_emotion_data :=
          \<lparr> emotion = ''error'', confidence = PyFloat 0, timestamp = ''2024-01-01T00:00:02'',
            faces_detected = 0, emotion_scores = None, error = Some ''out of memory'' \<rparr>\<rparr>"
  using classifier_failure_contained [of started_server
      "one_face_frame (raising_classifier ''out of memory'')"
      "[(10, 10, 50, 50)]" "(10, 10, 50, 50)" "''out of memory''" fresh_server
      "ReadOk (one_face_frame (raising_classifier ''out of memory''))" raising_passes]
  by (simp add: raising_passes_def started_server_def fresh_server_def init_def
        start_camera_detection_def initialize_face_cascade_def initialize_camera_def release_def
        one_face_frame_def raising_classifier_def largest_face_def raising_capture_def
        error_shape_def get_emotion_def loop_pass_def loop_body_def Let_def process_frame_def
        error_reading_def numeral_3_eq_3)

text \<open>
  The error text is not always non-empty: an exception raised without a message, such as
  \<open>MemoryError()\<close>, has the empty text, and that text is what the reading carries.
\<close>

theorem empty_error_text_counterexample:
  "classify (one_face_frame (raising_classifier [])) (10, 10, 50, 50) = Raises []
   \<and> raising_capture (ReadOk (one_face_frame (raising_classifier [])))
   \<and> error (get_emotion (process_frame (one_face_frame (raising_classifier [])) fresh_server))
       = Some []"
  by (simp add: one_face_frame_def raising_classifier_def process_frame_def largest_face_def
        error_reading_def get_emotion_def raising_capture_def)

section \<open>Faces counted and the emotion of a reading\<close>

lemma process_frame_shape:
  "sentinel_shape (current_emotion_data s) \<Longrightarrow>
     sentinel_shape (current_emotion_data (process_frame fr s))"
  by (auto simp: process_frame_def sentinel_shape_def no_face_reading_def error_reading_def
      split: sum.splits classify_outcome.splits list.splits option.splits)

lemma start_keeps_reading:
  "current_emotion_data (snd (start_camera_detection c k s)) = current_emotion_data s"
  by (cases c; cases k)
     (simp_all add: start_camera_detection_def initialize_face_cascade_def initialize_camera_def
        release_def split: option.splits)

lemma loop_pass_shape:
  "sentinel_shape (current_emotion_data s) \<Longrightarrow>
     sentinel_shape (current_emotion_data (snd (loop_pass c s)))"
  by (cases c)
     (auto simp: loop_pass_def loop_body_def Let_def process_frame_shape
        split: option.splits bool.splits)

lemma step_shape:
  assumes "sentinel_shape (current_emotion_data s)"
  shows "sentinel_shape (current_emotion_data (step e s))"
proof (cases e)
  case (Start c k)
  with assms show ?thesis by (simp add: start_keeps_reading)
next
  case Stop
  with assms show ?thesis by (simp add: stop_camera_detection_def)
next
  case DeviceLost
  with assms show ?thesis by (simp add: device_lost_def split: option.splits)
next
  case (LoopPass c)
  from loop_pass_shape [OF assms, of c] LoopPass assms show ?thesis
    by (cases "loop_pass c s") (auto split: loop_ctl.splits)
qed

lemma run_shape:
  "sentinel_shape (current_emotion_data s) \<Longrightarrow> sentinel_shape (current_emotion_data (run es s))"
  by (induction es arbitrary: s) (simp_all add: step_shape)

text \<open>
  C2, as the code has it. In every reading that is ever current, from the placeholder
  of the constructor through any sequence of requests and loop passes, no face is
  counted if and only if the reading is one of the three that the server writes without
  a classifier result: its emotion is \<open>unknown\<close>, \<open>no_face\<close> or \<open>error\<close>, and it has no
  scores.
\<close>

theorem zero_faces_iff_sentinel:
  "(faces_detected (get_emotion (run es (init p fp t0 c0))) = 0) =
   (emotion (get_emotion (run es (init p fp t0 c0))) \<in> {''unknown'', ''no_face'', ''error''}
    \<and> emotion_scores (get_emotion (run es (init p fp t0 c0))) = None)"
proof -
  have "sentinel_shape (current_emotion_data (init p fp t0 c0))"
    by (simp add: sentinel_shape_def init_def)
  then have "sentinel_shape (current_emotion_data (run es (init p fp t0 c0)))"
    by (rule run_shape)
  then show ?thesis by (simp add: sentinel_shape_def get_emotion_def)
qed

text \<open>
  The placeholder of the constructor counts no face and its emotion is \<open>unknown\<close>, not
  \<open>no_face\<close>; so does, with the emotion \<open>error\<close>, the reading written after a classifier
  failure.
\<close>

theorem placeholder_counterexample:
  "faces_detected (get_emotion fresh_server) = 0
   \<and> emotion (get_emotion fresh_server) = ''unknown''
   \<and> emotion (get_emotion fresh_server) \<noteq> ''no_face''
   \<and> faces_detected (get_emotion (snd (detection_loop raising_passes started_server))) = 0
   \<and> emotion (get_emotion (snd (detection_loop raising_passes started_server))) = ''error''"
  by (simp add: raising_passes_def started_server_def fresh_server_def init_def
        start_camera_detection_def initialize_face_cascade_def initialize_camera_def release_def
        one_face_frame_def raising_classifier_def largest_face_def
        get_emotion_def loop_pass_def loop_body_def Let_def process_frame_def
        error_reading_def numeral_3_eq_3)

section \<open>The camera going away under a running loop\<close>

text \<open>
  C3. A server is started, and the camera then goes away without any \<open>stop\<close> request. The
  third pass of the loop finds the device not open and ends the loop, but
  \<open>detection_running\<close> is still true afterwards: the status handler reports detection as
  running although no detection thread is left, and a further \<open>start\<close> answers success
  without starting anything.
\<close>

theorem camera_lost_leaves_running_flag:
  "detection_loop [ReadFailed, ReadFailed, ReadFailed] (device_lost started_server)
     = (Exit, (device_lost started_server)\<lparr>frame_skip_count := 0\<rparr>)
   \<and> detection_running
        (snd (detection_loop [ReadFailed, ReadFailed, ReadFailed] (device_lost started_server)))
      = True
   \<and> threads (run [Start CascadeLoads CameraOpened, DeviceLost, LoopPass ReadFailed,
          LoopPass ReadFailed, LoopPass ReadFailed] fresh_server) = 0
   \<and> status_detection_running (get_status ''2024-01-01T00:00:04''
        (run [Start CascadeLoads CameraOpened, DeviceLost, LoopPass ReadFailed,
          LoopPass ReadFailed, LoopPass ReadFailed] fresh_server)) = True
   \<and> start_camera_detection CascadeLoads CameraOpened
        (run [Start CascadeLoads CameraOpened, DeviceLost, LoopPass ReadFailed,
          LoopPass ReadFailed, LoopPass ReadFailed] fresh_server)
      = (True, run [Start CascadeLoads CameraOpened, DeviceLost, LoopPass ReadFailed,
          LoopPass ReadFailed, LoopPass ReadFailed] fresh_server)"
  by (simp add: started_server_def fresh_server_def init_def start_camera_detection_def
        initialize_face_cascade_def initialize_camera_def release_def device_lost_def
        loop_pass_def loop_body_def Let_def get_status_def)

section \<open>Starting twice\<close>

lemma start_while_running: "detection_running s \<Longrightarrow> start_camera_detection c k s = (True, s)"
  by (simp add: start_camera_detection_def)

lemma start_calls_while_running:
  "detection_running s \<Longrightarrow> start_calls ws s = (replicate (length ws) True, s)"
  by (induction ws) (auto simp: start_while_running)

lemma start_success:
  assumes "\<not> detection_running s0" and "start_camera_detection c k s0 = (True, s1)"
  shows "detection_running s1 \<and> camera_opens s1 = camera_opens s0 + 1
       \<and> threads s1 = threads s0 + 1"
  using assms
  by (cases c; cases k)
     (auto simp: start_camera_detection_def initialize_face_cascade_def initialize_camera_def
        release_def split: option.splits)

text \<open>
  C7. On a server whose detection is running, every call of any sequence of \<open>start\<close>
  calls returns success and the sequence leaves the server exactly as it was: still
  running, no camera opened, no thread started (the warning that is logged is not part
  of the state). Counted from an idle server, the \<open>start\<close> that succeeds opens the camera
  once, and however many \<open>start\<close> calls follow, that stays the only time.
\<close>

theorem start_idempotent:
  "(detection_running s \<longrightarrow> start_calls ws s = (replicate (length ws) True, s))
   \<and> (\<not> detection_running s0 \<and> start_camera_detection c k s0 = (True, s1) \<longrightarrow>
        detection_running s1 \<and> camera_opens s1 = camera_opens s0 + 1
        \<and> start_calls ws s1 = (replicate (length ws) True, s1))"
  using start_calls_while_running start_success by blast

theorem start_idempotent_witness:
  "start_calls [(CascadeLoads, CameraOpened), (CascadeEmpty, CameraNotOpened),
       (CascadeLoads, CameraOpened)] started_server
     = ([True, True, True], started_server)
   \<and> detection_running started_server
   \<and> camera_opens started_server = 1"
  using start_idempotent [of started_server
      "[(CascadeLoads, CameraOpened), (CascadeEmpty, CameraNotOpened), (CascadeLoads, CameraOpened)]"
      fresh_server CascadeLoads CameraOpened started_server]
  by (simp add: started_server_def fresh_server_def init_def start_camera_detection_def
        initialize_face_cascade_def initialize_camera_def release_def)

section \<open>A camera that cannot be opened\<close>

text \<open>
  C8. On an idle server, when \<open>cv2.VideoCapture(0)\<close> raises or returns a handle that is
  not opened, \<open>start\<close> returns failure, \<open>detection_running\<close> stays false and no detection
  thread is started. The status handler then reports the camera as not connected; this
  last part is for a \<open>start\<close> that got as far as the camera (the face cascade loaded), or
  for a server that held no open handle before.
\<close>

theorem failed_open_stays_idle:
  assumes "\<not> detection_running s"
    and "k = CameraNotOpened \<or> k = CameraRaises msg"
  shows "fst (start_camera_detection c k s) = False
       \<and> detection_running (snd (start_camera_detection c k s)) = False
       \<and> threads (snd (start_camera_detection c k s)) = threads s
       \<and> (c = CascadeLoads \<or> cap s \<noteq> Some True \<longrightarrow>
            status_camera_connected (get_status t (snd (start_camera_detection c k s))) = False)"
  using assms
  by (cases c)
     (auto simp: start_camera_detection_def initialize_face_cascade_def initialize_camera_def
        release_def get_status_def split: option.splits)

theorem failed_open_stays_idle_witness:
  "fst (start_camera_detection CascadeLoads CameraNotOpened fresh_server) = False
   \<and> detection_running (snd (start_camera_detection CascadeLoads CameraNotOpened fresh_server))
       = False
   \<and> threads (snd (start_camera_detection CascadeLoads CameraNotOpened fresh_server)) = 0
   \<and> status_camera_connected
        (get_status ''2024-01-01T00:00:03''
           (snd (start_camera_detection CascadeLoads CameraNotOpened fresh_server)))
      = False"
  using failed_open_stays_idle [of fresh_server CameraNotOpened "[]" CascadeLoads
      "''2024-01-01T00:00:03''"]
  by (simp add: fresh_server_def init_def)

section \<open>The fallback port\<close>

text \<open>
  The handler as it is written: when an \<open>OSError\<close> whose text says that the address is
  already in use leaves \<open>app.run\<close> on the primary port, \<open>run_server\<close> runs the server on
  the fallback port, and an exception of that second attempt leaves \<open>run_server\<close>.
\<close>

lemma fallback_on_oserror:
  assumes "contains_str ''Address already in use'' msg"
  shows "run_server (Fails (OSError msg)) Serves s = Inr (fallback_port s)
       \<and> run_server (Fails (OSError msg)) (Fails fallback_error) s = Inl fallback_error"
  using assms by (simp add: run_server_def)

text \<open>
  C9. A busy primary port does not reach that handler when \<open>app.run\<close> reports it by
  printing a message and exiting, as the HTTP library under Flask does since its version
  2.1: \<open>SystemExit\<close> with code 1 is neither an \<open>OSError\<close> nor an \<open>Exception\<close>. The fallback
  port is then not tried, although it would serve, and \<open>SystemExit\<close> leaves \<open>run_server\<close>.
\<close>

theorem busy_port_exit_skips_fallback:
  "run_server (Fails (SystemExit 1)) Serves fresh_server = Inl (SystemExit 1)
   \<and> run_server (Fails (SystemExit 1)) Serves fresh_server \<noteq> Inr (fallback_port fresh_server)"
  by (simp add: run_server_def)

end
